theory Spec2Isabelle
  imports Complex_Main "HOL-Library.Finite_Map" "HOL-Library.Log_Nat"
begin

section \<open>JavaScript numbers\<close>

text \<open>
  A JavaScript \<open>number\<close> is a finite double, one of the two infinities, or NaN. Finite
  values are embedded in the reals; the comparisons below are against integer constants and
  are exact on doubles. Every comparison with NaN is false.
\<close>

datatype number = Num real | PosInfinity | NegInfinity | NaN

fun ge :: "number \<Rightarrow> number \<Rightarrow> bool" where
  "ge NaN _ = False"
| "ge _ NaN = False"
| "ge PosInfinity _ = True"
| "ge _ NegInfinity = True"
| "ge (Num a) (Num b) = (a \<ge> b)"
| "ge (Num a) PosInfinity = False"
| "ge NegInfinity _ = False"

text \<open>
  The result of an arithmetic operation is the exact real result rounded to a double (IEEE 754
  binary64, round to nearest, ties to even). For \<open>x > 0\<close>, \<open>exponent x\<close> is the integer \<open>e\<close>
  with \<open>2^e \<le> x < 2^(e+1)\<close>; the doubles near \<open>x\<close> are the multiples of
  \<open>2^(e - 52)\<close>, or of \<open>2^(-1074)\<close> in the subnormal range; a rounded value of \<open>2^1024\<close>
  or more overflows to an infinity. The sign of a zero is not kept.
\<close>

definition pow2 :: "int \<Rightarrow> real" where
  "pow2 n = (if 0 \<le> n then 2 ^ nat n else 1 / 2 ^ nat (- n))"

definition exponent :: "real \<Rightarrow> int" where
  "exponent x = (if 1 \<le> x then bitlen \<lfloor>x\<rfloor> - 1 else - bitlen (\<lceil>1 / x\<rceil> - 1))"

definition round_half_even :: "real \<Rightarrow> int" where
  "round_half_even q =
     (let f = \<lfloor>q\<rfloor> in
      if q - of_int f < 1 / 2 then f
      else if 1 / 2 < q - of_int f then f + 1
      else if even f then f else f + 1)"

definition round_double :: "real \<Rightarrow> number" where
  "round_double x =
     (if x = 0 then Num 0
      else (let ulp = pow2 (max (exponent \<bar>x\<bar>) (- 1022) - 52);
                r = of_int (round_half_even (\<bar>x\<bar> / ulp)) * ulp
            in if 2 ^ 1024 \<le> r then (if 0 < x then PosInfinity else NegInfinity)
               else Num (if 0 < x then r else - r)))"

text \<open>
  Arithmetic on array lengths, as used by the progress bar. A length is an integer below
  \<open>2^32\<close> and so a double. \<open>/\<close> on two lengths: a zero divisor gives NaN for 0/0 and
  Infinity otherwise; any other quotient is rounded to a double. \<open>* 100\<close> rounds the product
  to a double and keeps NaN and the infinities.
\<close>

definition divide_lengths :: "nat \<Rightarrow> nat \<Rightarrow> number" where
  "divide_lengths a b =
     (if b = 0 then (if a = 0 then NaN else PosInfinity) else round_double (real a / real b))"

fun times_100 :: "number \<Rightarrow> number" where
  "times_100 (Num x) = round_double (x * 100)"
| "times_100 PosInfinity = PosInfinity"
| "times_100 NegInfinity = NegInfinity"
| "times_100 NaN = NaN"

section \<open>QuizInterface: component state\<close>

text \<open>
  \<^verbatim>\<open>
  interface Question { id: string; question_text: string; option_a: string; option_b: string;
    option_c: string; option_d: string; difficulty_level?: string; blooms_taxonomy?: string; }
  \<close>
  The field \<open>id\<close> is called \<open>qid\<close> here.
\<close>

record question =
  qid :: string
  question_text :: string
  option_a :: string
  option_b :: string
  option_c :: string
  option_d :: string
  difficulty_level :: "string option"
  blooms_taxonomy :: "string option"

text \<open>
  The state hooks of the component: \<open>currentQuestion\<close> (initially 0), \<open>answers\<close> (a
  \<open>Record<string, string>\<close>, initially \<open>{}\<close>; an object holds finitely many keys, each
  once) and \<open>exporting\<close> (initially false). \<open>startTime\<close> is never written after the mount and
  only feeds the elapsed-minutes label, so it is left out.
\<close>

record quiz_interface =
  currentQuestion :: int
  answers :: "(string, string) fmap"
  exporting :: bool

definition QuizInterface_init :: quiz_interface where
  "QuizInterface_init = \<lparr>currentQuestion = 0, answers = fmempty, exporting = False\<rparr>"

text \<open>
  \<^verbatim>\<open>
  const handleAnswer = (questionId: string, answer: string) => {
    setAnswers((prev) => ({ ...prev, [questionId]: answer }));
  };
  \<close>
\<close>

definition handleAnswer :: "string \<Rightarrow> string \<Rightarrow> quiz_interface \<Rightarrow> quiz_interface" where
  "handleAnswer questionId answer s = s\<lparr>answers := fmupd questionId answer (answers s)\<rparr>"

text \<open>
  \<^verbatim>\<open>
  const handleNext = () => {
    if (currentQuestion < questions.length - 1) { setCurrentQuestion(currentQuestion + 1); }
  };
  const handlePrevious = () => {
    if (currentQuestion > 0) { setCurrentQuestion(currentQuestion - 1); }
  };
  \<close>
  The cursor is an integer, so that \<open>questions.length - 1\<close> is \<open>-1\<close> on an empty list.
\<close>

definition handleNext :: "question list \<Rightarrow> quiz_interface \<Rightarrow> quiz_interface" where
  "handleNext questions s =
     (if currentQuestion s < int (length questions) - 1
      then s\<lparr>currentQuestion := currentQuestion s + 1\<rparr> else s)"

definition handlePrevious :: "quiz_interface \<Rightarrow> quiz_interface" where
  "handlePrevious s =
     (if currentQuestion s > 0 then s\<lparr>currentQuestion := currentQuestion s - 1\<rparr> else s)"

text \<open>
  The jump buttons: one button per question, whose click handler sets the cursor to the
  button's own index.
  \<^verbatim>\<open>
  {questions.map((_, idx) => (
    <button key={idx} onClick={() => setCurrentQuestion(idx)} ...>{idx + 1}</button>
  ))}
  \<close>
  \<open>jumpButtons\<close> is the list of the rendered click handlers. There is no other way to jump:
  \<open>jumpTo\<close> is a click on the button of the index asked for, and where no such button is
  rendered no handler runs.
\<close>

definition jumpButtons :: "question list \<Rightarrow> (quiz_interface \<Rightarrow> quiz_interface) list" where
  "jumpButtons questions =
     map (\<lambda>idx s. s\<lparr>currentQuestion := int idx\<rparr>) [0..<length questions]"

definition jumpTo :: "question list \<Rightarrow> int \<Rightarrow> quiz_interface \<Rightarrow> quiz_interface" where
  "jumpTo questions i s =
     (if 0 \<le> i \<and> i < int (length (jumpButtons questions))
      then (jumpButtons questions ! nat i) s else s)"

text \<open>A navigation action of the user, and a sequence of them run from left to right.\<close>

datatype navigation = Next | Previous | Jump int

fun navigate :: "question list \<Rightarrow> navigation \<Rightarrow> quiz_interface \<Rightarrow> quiz_interface" where
  "navigate questions Next s = handleNext questions s"
| "navigate questions Previous s = handlePrevious s"
| "navigate questions (Jump i) s = jumpTo questions i s"

fun navigate_all :: "question list \<Rightarrow> navigation list \<Rightarrow> quiz_interface \<Rightarrow> quiz_interface" where
  "navigate_all questions [] s = s"
| "navigate_all questions (a # as) s = navigate_all questions as (navigate questions a s)"

text \<open>
  \<^verbatim>\<open>
  const answeredCount = Object.keys(answers).length;
  const progress = (answeredCount / questions.length) * 100;
  \<close>
\<close>

definition answeredCount :: "quiz_interface \<Rightarrow> nat" where
  "answeredCount s = fcard (fmdom (answers s))"

definition progress :: "question list \<Rightarrow> quiz_interface \<Rightarrow> number" where
  "progress questions s = times_100 (divide_lengths (answeredCount s) (length questions))"

text \<open>
  What a handler does besides updating its component's state: dialogs, callbacks to the
  parent, requests to the export endpoint, and the download of a received document.
\<close>

type_synonym blob = string

datatype export_type = questions_only | results_with_answers

datatype file_format = pdf | docx

fun export_type_name :: "export_type \<Rightarrow> string" where
  "export_type_name questions_only = ''questions_only''"
| "export_type_name results_with_answers = ''results_with_answers''"

fun file_format_name :: "file_format \<Rightarrow> string" where
  "file_format_name pdf = ''pdf''"
| "file_format_name docx = ''docx''"

datatype effect =
    WindowConfirm string
  | OnSubmit "(string, string) fmap"
  | FetchExport string export_type file_format
  | WindowAlert string
  | ConsoleError string
  | SaveAs string blob

text \<open>Decimal digits of a number, as a template literal prints it.\<close>

definition digit :: "nat \<Rightarrow> char" where
  "digit n = char_of (48 + n)"

fun show_nat :: "nat \<Rightarrow> string" where
  "show_nat n = (if n < 10 then [digit n] else show_nat (n div 10) @ [digit (n mod 10)])"

declare show_nat.simps [simp del]

text \<open>
  A property read \<open>answers[k]\<close>. The answer map is a plain object (\<open>{}\<close>, or a spread copy
  with one key set), so its prototype is \<open>Object.prototype\<close>: the read yields the object's
  own value under \<open>k\<close> if it has one, else the member of \<open>Object.prototype\<close> named \<open>k\<close>
  if there is one (a function, or for \<open>__proto__\<close> the prototype object itself), else
  \<open>undefined\<close>. Of these, \<open>undefined\<close> and the empty string are falsy; every other string
  and every inherited member is truthy.
\<close>

definition Object_prototype_members :: "string list" where
  "Object_prototype_members =
     [''constructor'', ''__defineGetter__'', ''__defineSetter__'', ''hasOwnProperty'',
      ''__lookupGetter__'', ''__lookupSetter__'', ''isPrototypeOf'', ''propertyIsEnumerable'',
      ''toString'', ''valueOf'', ''__proto__'', ''toLocaleString'']"

datatype property_value = Undefined | OwnString string | Inherited

definition get_property :: "(string, string) fmap \<Rightarrow> string \<Rightarrow> property_value" where
  "get_property obj k =
     (case fmlookup obj k of
        Some v \<Rightarrow> OwnString v
      | None \<Rightarrow> if k \<in> set Object_prototype_members then Inherited else Undefined)"

fun truthy :: "property_value \<Rightarrow> bool" where
  "truthy Undefined = False"
| "truthy (OwnString str) = (str \<noteq> [])"
| "truthy Inherited = True"

text \<open>
  \<^verbatim>\<open>
  const handleSubmit = () => {
    const unanswered = questions.filter((q) => !answers[q.id]);
    if (unanswered.length > 0) {
      const confirm = window.confirm(
        `You have ${unanswered.length} unanswered question(s). Submit anyway?`
      );
      if (!confirm) return;
    }
    onSubmit(answers);
  };
  \<close>
  \<open>confirm\<close> is the user's reply to the dialog, read only when the dialog is shown. The
  result is the component state after the handler and what the handler did, in order.
\<close>

definition handleSubmit ::
  "question list \<Rightarrow> bool \<Rightarrow> quiz_interface \<Rightarrow> quiz_interface \<times> effect list" where
  "handleSubmit questions confirm s =
     (let unanswered = filter (\<lambda>q. \<not> truthy (get_property (answers s) (qid q))) questions in
      if length unanswered > 0 then
        (let prompt = WindowConfirm (''You have '' @ show_nat (length unanswered) @
                        '' unanswered question(s). Submit anyway?'') in
         if \<not> confirm then (s, [prompt])
         else (s, [prompt, OnSubmit (answers s)]))
      else (s, [OnSubmit (answers s)]))"

text \<open>
  The unanswered-question count in the words of the specification: the number of questions
  less the number of answer-map keys that are ids of questions.
\<close>

definition spec_unanswered_count :: "question list \<Rightarrow> (string, string) fmap \<Rightarrow> nat" where
  "spec_unanswered_count questions m =
     length questions - card (fset (fmdom m) \<inter> qid ` set questions)"

text \<open>
  The export of the questions. The handler runs up to its first \<open>await\<close> when the button is
  clicked, and resumes when the request settles.
  \<^verbatim>\<open>
  const handleExportQuestions = async (format: "pdf" | "docx") => {
    try {
      setExporting(true);
      const formData = new FormData();
      formData.append("session_id", sessionId);
      formData.append("export_type", "questions_only");
      formData.append("file_format", format);
      const response = await fetch("http://localhost:8000/api/export", { method: "POST", body: formData });
      if (!response.ok) { alert("Export failed!"); return; }
      const blob = await response.blob();
      ...
      a.download = `questions_${sessionId}.${format}`;
      a.click();
      ...
    } catch (err) {
      alert("Error exporting questions.");
    } finally {
      setExporting(false);
    }
  };
  \<close>
  A request settles in one of four ways: \<open>fetch\<close> rejects, the response is not ok, reading
  the body rejects, or the body arrives.
\<close>

datatype export_response = FetchRejected | NotOk | BlobRejected | Ok blob

definition handleExportQuestions_begin ::
  "string \<Rightarrow> file_format \<Rightarrow> quiz_interface \<Rightarrow> quiz_interface \<times> effect list" where
  "handleExportQuestions_begin sessionId format s =
     (s\<lparr>exporting := True\<rparr>, [FetchExport sessionId questions_only format])"

definition handleExportQuestions_resume ::
  "string \<Rightarrow> file_format \<Rightarrow> export_response \<Rightarrow> quiz_interface \<Rightarrow> quiz_interface \<times> effect list" where
  "handleExportQuestions_resume sessionId format response s =
     (case response of
        NotOk \<Rightarrow> (s\<lparr>exporting := False\<rparr>, [WindowAlert ''Export failed!''])
      | Ok b \<Rightarrow>
          (s\<lparr>exporting := False\<rparr>,
           [SaveAs (''questions_'' @ sessionId @ ''.'' @ file_format_name format) b])
      | FetchRejected \<Rightarrow> (s\<lparr>exporting := False\<rparr>, [WindowAlert ''Error exporting questions.''])
      | BlobRejected \<Rightarrow> (s\<lparr>exporting := False\<rparr>, [WindowAlert ''Error exporting questions.'']))"

text \<open>
  \<^verbatim>\<open>
  <button disabled={exporting} onClick={() => handleExportQuestions("pdf")} ...>
  \<close>
  A disabled button does not run its click handler.
\<close>

definition exportQuestions_click ::
  "string \<Rightarrow> quiz_interface \<Rightarrow> quiz_interface \<times> effect list" where
  "exportQuestions_click sessionId s =
     (if exporting s then (s, []) else handleExportQuestions_begin sessionId pdf s)"

text \<open>A question with a given id, for the worked examples.\<close>

definition sample_question :: "string \<Rightarrow> question" where
  "sample_question i =
     \<lparr>qid = i, question_text = ''What is asked?'', option_a = ''first'', option_b = ''second'',
      option_c = ''third'', option_d = ''fourth'', difficulty_level = Some ''Easy'',
      blooms_taxonomy = None\<rparr>"

section \<open>FileUpload: validation of the chosen file\<close>

text \<open>
  Of a browser \<open>File\<close> the component reads the name and the size in bytes; \<open>size\<close> is called
  \<open>size_f\<close> here.
\<close>

record js_file =
  name :: string
  size_f :: nat

text \<open>
  \<open>String.prototype.split\<close> with a one-character separator (the result is never empty),
  \<open>Array.prototype.pop\<close> (the last element, or \<open>undefined\<close> on an empty array) and
  \<open>String.prototype.toLowerCase\<close>. The lower-casing maps the letters A to Z and leaves
  every other character as it is; no character outside ASCII lower-cases to a letter of an
  allowed extension, so the type check below does not depend on how such characters are
  treated.
\<close>

fun split_str :: "char \<Rightarrow> string \<Rightarrow> string list" where
  "split_str c [] = [[]]"
| "split_str c (x # xs) =
     (if x = c then [] # split_str c xs
      else (case split_str c xs of [] \<Rightarrow> [[x]] | seg # segs \<Rightarrow> (x # seg) # segs))"

definition pop :: "'a list \<Rightarrow> 'a option" where
  "pop xs = (if xs = [] then None else Some (last xs))"

definition toLowerCase_char :: "char \<Rightarrow> char" where
  "toLowerCase_char c =
     (let n = (of_char c :: nat) in if 65 \<le> n \<and> n \<le> 90 then char_of (n + 32) else c)"

definition toLowerCase :: "string \<Rightarrow> string" where
  "toLowerCase str = map toLowerCase_char str"

text \<open>
  \<^verbatim>\<open>
  const validateAndSetFile = (file: File) => {
    const allowedTypes = ['.pdf', '.docx', '.txt'];
    const fileExt = '.' + file.name.split('.').pop()?.toLowerCase();
    if (!allowedTypes.includes(fileExt)) {
      setError('Please upload a PDF, DOCX, or TXT file');
      return;
    }
    if (file.size > 10 * 1024 * 1024) {
      setError('File size must be less than 10MB');
      return;
    }
    setError(null);
    setSelectedFile(file);
  };
  \<close>
  The component's \<open>error\<close> hook is called \<open>error_u\<close> here. Besides its state a handler of
  this component can send the upload request and call \<open>onFileUploaded\<close>, which is what moves
  the application to the next phase.
\<close>

definition allowedTypes :: "string list" where
  "allowedTypes = [''.pdf'', ''.docx'', ''.txt'']"

definition fileExt :: "string \<Rightarrow> string" where
  "fileExt file_name =
     ''.'' @ (case pop (split_str CHR ''.'' file_name) of
                None \<Rightarrow> ''undefined''
              | Some seg \<Rightarrow> toLowerCase seg)"

record file_upload =
  isDragging :: bool
  isUploading :: bool
  error_u :: "string option"
  selectedFile :: "js_file option"

definition FileUpload_init :: file_upload where
  "FileUpload_init =
     \<lparr>isDragging = False, isUploading = False, error_u = None, selectedFile = None\<rparr>"

datatype upload_effect = FetchUpload js_file | OnFileUploaded string string

definition validateAndSetFile :: "js_file \<Rightarrow> file_upload \<Rightarrow> file_upload \<times> upload_effect list" where
  "validateAndSetFile f s =
     (if fileExt (name f) \<notin> set allowedTypes
      then (s\<lparr>error_u := Some ''Please upload a PDF, DOCX, or TXT file''\<rparr>, [])
      else if size_f f > 10 * 1024 * 1024
      then (s\<lparr>error_u := Some ''File size must be less than 10MB''\<rparr>, [])
      else (s\<lparr>error_u := None, selectedFile := Some f\<rparr>, []))"

text \<open>
  The upload request is sent by \<open>handleUpload\<close>, for the selected file only:
  \<^verbatim>\<open>
  const handleUpload = async () => {
    if (!selectedFile) return;
    setIsUploading(true);
    setError(null);
    try {
      const formData = new FormData();
      formData.append('file', selectedFile);
      const response = await fetch(`${apiUrl}/api/upload`, { method: 'POST', body: formData });
      ...
  \<close>
  This is the handler up to its first \<open>await\<close>.
\<close>

definition handleUpload_begin :: "file_upload \<Rightarrow> file_upload \<times> upload_effect list" where
  "handleUpload_begin s =
     (case selectedFile s of
        None \<Rightarrow> (s, [])
      | Some f \<Rightarrow> (s\<lparr>isUploading := True, error_u := None\<rparr>, [FetchUpload f]))"

text \<open>
  An upper-case or mixed-case variant of a text, in the words of the specification: the same
  length, and at every position the same character or its capital letter.
\<close>

definition capital :: "char \<Rightarrow> char" where
  "capital c =
     (let n = (of_char c :: nat) in if 97 \<le> n \<and> n \<le> 122 then char_of (n - 32) else c)"

definition case_variant :: "string \<Rightarrow> string \<Rightarrow> bool" where
  "case_variant v w = list_all2 (\<lambda>a b. a = b \<or> a = capital b) v w"

section \<open>ResultsDisplay: grade derivation\<close>

text \<open>
  \<^verbatim>\<open>
  const getGrade = () => {
    if (percentage >= 93) return { grade: 'S', color: 'text-green-600', bg: 'bg-green-50' };
    if (percentage >= 85) return { grade: 'A', color: 'text-blue-600', bg: 'bg-blue-50' };
    if (percentage >= 75) return { grade: 'B', color: 'text-yellow-600', bg: 'bg-yellow-50' };
    if (percentage >= 60) return { grade: 'C', color: 'text-orange-600', bg: 'bg-orange-50' };
    if (percentage >= 35) return { grade: 'D', color: 'text-orange-600', bg: 'bg-orange-50' };
    return { grade: 'F', color: 'text-red-600', bg: 'bg-red-50' };
  };
  \<close>
  \<open>percentage\<close> is a prop of the component, so it is a parameter here.
\<close>

record grade_info =
  grade :: string
  color :: string
  bg :: string

definition getGrade :: "number \<Rightarrow> grade_info" where
  "getGrade percentage =
     (if ge percentage (Num 93) then \<lparr>grade = ''S'', color = ''text-green-600'', bg = ''bg-green-50''\<rparr>
      else if ge percentage (Num 85) then \<lparr>grade = ''A'', color = ''text-blue-600'', bg = ''bg-blue-50''\<rparr>
      else if ge percentage (Num 75) then \<lparr>grade = ''B'', color = ''text-yellow-600'', bg = ''bg-yellow-50''\<rparr>
      else if ge percentage (Num 60) then \<lparr>grade = ''C'', color = ''text-orange-600'', bg = ''bg-orange-50''\<rparr>
      else if ge percentage (Num 35) then \<lparr>grade = ''D'', color = ''text-orange-600'', bg = ''bg-orange-50''\<rparr>
      else \<lparr>grade = ''F'', color = ''text-red-600'', bg = ''bg-red-50''\<rparr>)"

text \<open>
  The export of the results. The component keeps which result is expanded and whether an
  export is running.
  \<^verbatim>\<open>
  const handleExport = async (exportType: 'questions_only' | 'results_with_answers',
                              format: 'pdf' | 'docx') => {
    setIsExporting(true);
    try {
      ...
      const response = await fetch(`${apiUrl}/api/export`, { method: 'POST', body: formData });
      if (!response.ok) throw new Error('Export failed');
      const blob = await response.blob();
      ...
      a.download = `quiz_${exportType}_${Date.now()}.${format}`;
      ...
    } catch (error) {
      console.error('Export error:', error);
      alert('Export failed. Please try again.');
    } finally {
      setIsExporting(false);
    }
  };
  \<close>
  \<open>now\<close> is the value of \<open>Date.now()\<close> when the document arrives.
\<close>

record results_display =
  expandedQuestion :: "string option"
  isExporting :: bool

definition ResultsDisplay_init :: results_display where
  "ResultsDisplay_init = \<lparr>expandedQuestion = None, isExporting = False\<rparr>"

definition handleExport_begin ::
  "string \<Rightarrow> export_type \<Rightarrow> file_format \<Rightarrow> results_display \<Rightarrow> results_display \<times> effect list" where
  "handleExport_begin sessionId exportType format s =
     (s\<lparr>isExporting := True\<rparr>, [FetchExport sessionId exportType format])"

definition handleExport_resume ::
  "export_type \<Rightarrow> file_format \<Rightarrow> nat \<Rightarrow> export_response \<Rightarrow> results_display \<Rightarrow>
   results_display \<times> effect list" where
  "handleExport_resume exportType format now response s =
     (case response of
        Ok b \<Rightarrow>
          (s\<lparr>isExporting := False\<rparr>,
           [SaveAs (''quiz_'' @ export_type_name exportType @ ''_'' @ show_nat now @ ''.'' @
                    file_format_name format) b])
      | _ \<Rightarrow>
          (s\<lparr>isExporting := False\<rparr>,
           [ConsoleError ''Export error:'', WindowAlert ''Export failed. Please try again.'']))"

text \<open>
  \<^verbatim>\<open>
  <button onClick={() => handleExport('results_with_answers', 'pdf')} disabled={isExporting} ...>
  <button onClick={() => handleExport('results_with_answers', 'docx')} disabled={isExporting} ...>
  \<close>
\<close>

definition exportResults_click ::
  "string \<Rightarrow> file_format \<Rightarrow> results_display \<Rightarrow> results_display \<times> effect list" where
  "exportResults_click sessionId format s =
     (if isExporting s then (s, [])
      else handleExport_begin sessionId results_with_answers format s)"

section \<open>App: the quiz session state machine\<close>

text \<open>
  \<^verbatim>\<open>
  type AppState = 'upload' | 'generate' | 'quiz' | 'results';
  \<close>
  and the \<open>QuizResult\<close> of the API module (its \<open>results\<close> array is called \<open>results_r\<close> here,
  the \<open>question_text\<close> of an item \<open>question_text_r\<close>, and the four option texts A to D are a
  tuple).
\<close>

datatype app_state = Upload | Generate | Quiz | Results

record result_item =
  question_id :: string
  question_text_r :: string
  user_answer :: string
  correct_answer :: string
  is_correct :: bool
  explanation :: string
  options :: "string \<times> string \<times> string \<times> string"

record quiz_result =
  session_id :: string
  total_questions :: nat
  correct_answers :: nat
  incorrect_answers :: nat
  percentage :: number
  results_r :: "result_item list"

text \<open>
  The state hooks of \<open>App\<close>:
  \<^verbatim>\<open>
  const [state, setState] = useState<AppState>('upload');
  const [fileId, setFileId] = useState<string>('');
  const [fileName, setFileName] = useState<string>('');
  const [questions, setQuestions] = useState<Question[]>([]);
  const [sessionId, setSessionId] = useState<string>('');
  const [results, setResults] = useState<QuizResult | null>(null);
  const [error, setError] = useState<string | null>(null);
  const [backendStatus, setBackendStatus] = useState<boolean | null>(null);
  \<close>
\<close>

record app =
  state :: app_state
  fileId :: string
  fileName :: string
  questions :: "question list"
  sessionId :: string
  results :: "quiz_result option"
  error :: "string option"
  backendStatus :: "bool option"

definition App_init :: app where
  "App_init =
     \<lparr>state = Upload, fileId = [], fileName = [], questions = [], sessionId = [],
      results = None, error = None, backendStatus = None\<rparr>"

text \<open>
  \<^verbatim>\<open>
  const handleFileUploaded = (id: string, name: string) => {
    setFileId(id); setFileName(name); setState('generate'); setError(null);
  };
  const handleQuestionsGenerated = (generatedQuestions: Question[], sessionId: string) => {
    setQuestions(generatedQuestions); setSessionId(sessionId); setState('quiz'); setError(null);
  };
  \<close>
\<close>

definition handleFileUploaded :: "string \<Rightarrow> string \<Rightarrow> app \<Rightarrow> app" where
  "handleFileUploaded i n a = a\<lparr>fileId := i, fileName := n, state := Generate, error := None\<rparr>"

definition handleQuestionsGenerated :: "question list \<Rightarrow> string \<Rightarrow> app \<Rightarrow> app" where
  "handleQuestionsGenerated generatedQuestions newSessionId a =
     a\<lparr>questions := generatedQuestions, sessionId := newSessionId, state := Quiz, error := None\<rparr>"

text \<open>
  The submission. \<open>apiService.submitQuiz\<close> returns an \<open>ApiResponse\<close> (its \<open>error\<close> field is
  called \<open>error_r\<close> here); an \<open>await\<close> either yields the value or throws.
  \<^verbatim>\<open>
  const handleQuizSubmit = async (answers: Record<string, string>) => {
    try {
      const response = await apiService.submitQuiz(sessionId, answers);
      if (response.success && response.data) {
        setResults(response.data);
        setState('results');
        setError(null);
      } else {
        setError(response.error || 'Failed to submit quiz');
      }
    } catch (err) {
      setError(err instanceof Error ? err.message : 'Failed to submit quiz');
    }
  };
  \<close>
  The handler runs up to the \<open>await\<close> when the quiz is submitted: it sends the request with
  the session id of that moment. It resumes when the request settles, on the state the
  application has then. The request stands for what the resumed handler still has in scope of
  the moment of sending; the code after the \<open>await\<close> reads none of it.
\<close>

record 'a api_response =
  success :: bool
  data :: "'a option"
  error_r :: "string option"

datatype thrown = ErrorObject string | OtherValue

datatype 'a settled = Resolved 'a | Threw thrown

datatype request = SubmitQuiz string "(string, string) fmap"

definition or_else :: "string option \<Rightarrow> string \<Rightarrow> string" where
  "or_else v fallback =
     (case v of None \<Rightarrow> fallback | Some str \<Rightarrow> if str = [] then fallback else str)"

definition handleQuizSubmit_begin :: "(string, string) fmap \<Rightarrow> app \<Rightarrow> request" where
  "handleQuizSubmit_begin submitted a = SubmitQuiz (sessionId a) submitted"

definition handleQuizSubmit_resume ::
  "request \<Rightarrow> quiz_result api_response settled \<Rightarrow> app \<Rightarrow> app" where
  "handleQuizSubmit_resume sent outcome a =
     (case outcome of
        Resolved response \<Rightarrow>
          (if success response \<and> data response \<noteq> None
           then a\<lparr>results := data response, state := Results, error := None\<rparr>
           else a\<lparr>error := Some (or_else (error_r response) ''Failed to submit quiz'')\<rparr>)
      | Threw err \<Rightarrow>
          a\<lparr>error := Some (case err of ErrorObject msg \<Rightarrow> msg
                              | OtherValue \<Rightarrow> ''Failed to submit quiz'')\<rparr>)"

text \<open>
  \<^verbatim>\<open>
  const handleRestart = () => {
    setFileId(''); setFileName(''); setQuestions([]); setSessionId('');
    setResults(null); setError(null); setState('upload');
  };
  \<close>
\<close>

definition handleRestart :: "app \<Rightarrow> app" where
  "handleRestart a =
     a\<lparr>fileId := [], fileName := [], questions := [], sessionId := [], results := None,
       error := None, state := Upload\<rparr>"

text \<open>
  The answer map and the cursor are state of the \<open>QuizInterface\<close> component, which \<open>App\<close>
  renders in the quiz phase only:
  \<^verbatim>\<open>
  {state === 'quiz' && (
    <QuizInterface questions={questions} sessionId={sessionId} onSubmit={handleQuizSubmit} />
  )}
  \<close>
  A component that is rendered keeps its state, one that is rendered anew starts from its
  initial state, and one that is no longer rendered is unmounted and its state discarded.
  The screen is the state of \<open>App\<close> together with the state of the mounted \<open>QuizInterface\<close>,
  if there is one; \<open>restart\<close> is \<open>handleRestart\<close> followed by the rendering.
\<close>

definition render_QuizInterface :: "app \<Rightarrow> quiz_interface option \<Rightarrow> quiz_interface option" where
  "render_QuizInterface a child =
     (if state a = Quiz
      then (case child of None \<Rightarrow> Some QuizInterface_init | Some c \<Rightarrow> Some c)
      else None)"

definition restart :: "app \<times> quiz_interface option \<Rightarrow> app \<times> quiz_interface option" where
  "restart screen =
     (let a = handleRestart (fst screen) in (a, render_QuizInterface a (snd screen)))"

text \<open>A scoring result, for the worked examples.\<close>

definition sample_result :: "string \<Rightarrow> quiz_result" where
  "sample_result sid =
     \<lparr>session_id = sid, total_questions = 1, correct_answers = 1, incorrect_answers = 0,
      percentage = Num 100,
      results_r = [\<lparr>question_id = ''q1'', question_text_r = ''What is asked?'',
                    user_answer = ''B'', correct_answer = ''B'', is_correct = True,
                    explanation = ''Because.'',
                    options = (''first'', ''second'', ''third'', ''fourth'')\<rparr>]\<rparr>"

section \<open>Results presentation\<close>

text \<open>
  C2. The grade is a function of the percentage alone and follows the banded table with
  inclusive lower boundaries, read top-down: at least 93 gives S, from 85 up to but not
  including 93 gives A, from 75 B, from 60 C, from 35 D, and anything below 35 gives F.
  Of the values that are not finite, Infinity lies in the top band and -Infinity in the
  lowest; NaN lies in no band and falls through to F.
\<close>

theorem getGrade_bands:
  "(93 \<le> p \<longrightarrow> grade (getGrade (Num p)) = ''S'') \<and>
   (85 \<le> p \<and> p < 93 \<longrightarrow> grade (getGrade (Num p)) = ''A'') \<and>
   (75 \<le> p \<and> p < 85 \<longrightarrow> grade (getGrade (Num p)) = ''B'') \<and>
   (60 \<le> p \<and> p < 75 \<longrightarrow> grade (getGrade (Num p)) = ''C'') \<and>
   (35 \<le> p \<and> p < 60 \<longrightarrow> grade (getGrade (Num p)) = ''D'') \<and>
   (p < 35 \<longrightarrow> grade (getGrade (Num p)) = ''F'') \<and>
   grade (getGrade PosInfinity) = ''S'' \<and>
   grade (getGrade NegInfinity) = ''F'' \<and>
   grade (getGrade NaN) = ''F''"
  by (simp add: getGrade_def)

text \<open>The boundary values of the specification: 93.0, 92.999, 85.0, 60.0, 59.999, 35.0, 34.999.\<close>

theorem getGrade_bands_witness:
  "grade (getGrade (Num 93)) = ''S'' \<and>
   grade (getGrade (Num 92.999)) = ''A'' \<and>
   grade (getGrade (Num 85)) = ''A'' \<and>
   grade (getGrade (Num 60)) = ''C'' \<and>
   grade (getGrade (Num 59.999)) = ''D'' \<and>
   grade (getGrade (Num 35)) = ''D'' \<and>
   grade (getGrade (Num 34.999)) = ''F''"
  using getGrade_bands [of 93] getGrade_bands [of "92.999"] getGrade_bands [of 85]
    getGrade_bands [of 60] getGrade_bands [of "59.999"] getGrade_bands [of 35]
    getGrade_bands [of "34.999"]
  by simp

section \<open>Session answer store\<close>

text \<open>
  C8. Selecting option \<open>o\<close> for question \<open>q\<close> yields an answer map whose entry for \<open>q\<close> is
  exactly \<open>o\<close>, whether or not \<open>q\<close> had an entry before (the key set gains at most \<open>q\<close>, so
  there is never more than one entry per question id), and whose entry for every other
  question id is unchanged; the cursor and the exporting flag are not touched.
\<close>

theorem handleAnswer_overwrites_and_frames:
  "fmlookup (answers (handleAnswer q opt s)) q = Some opt \<and>
   (\<forall>q'. q' \<noteq> q \<longrightarrow> fmlookup (answers (handleAnswer q opt s)) q' = fmlookup (answers s) q') \<and>
   fmdom (answers (handleAnswer q opt s)) = finsert q (fmdom (answers s)) \<and>
   answeredCount (handleAnswer q opt s) =
     (if q |\<in>| fmdom (answers s) then answeredCount s else answeredCount s + 1) \<and>
   currentQuestion (handleAnswer q opt s) = currentQuestion s \<and>
   exporting (handleAnswer q opt s) = exporting s"
  by (simp add: handleAnswer_def answeredCount_def fcard_finsert_if)

text \<open>Answering question q1 with B, then q2 with A, then q1 again with C.\<close>

theorem handleAnswer_overwrites_and_frames_witness:
  "fmlookup (answers (handleAnswer ''q1'' ''C''
      (handleAnswer ''q2'' ''A'' (handleAnswer ''q1'' ''B'' QuizInterface_init)))) ''q1'' = Some ''C'' \<and>
   fmlookup (answers (handleAnswer ''q1'' ''C''
      (handleAnswer ''q2'' ''A'' (handleAnswer ''q1'' ''B'' QuizInterface_init)))) ''q2'' = Some ''A'' \<and>
   answeredCount (handleAnswer ''q1'' ''C''
      (handleAnswer ''q2'' ''A'' (handleAnswer ''q1'' ''B'' QuizInterface_init))) = 2"
proof -
  let ?s1 = "handleAnswer ''q1'' ''B'' QuizInterface_init"
  let ?s2 = "handleAnswer ''q2'' ''A'' ?s1"
  have dom0: "fmdom (answers QuizInterface_init) = {||}"
    and cnt0: "answeredCount QuizInterface_init = 0"
    by (simp_all add: QuizInterface_init_def answeredCount_def)
  note h1 = handleAnswer_overwrites_and_frames [of "''q1''" "''B''" QuizInterface_init]
  note h2 = handleAnswer_overwrites_and_frames [of "''q2''" "''A''" ?s1]
  note h3 = handleAnswer_overwrites_and_frames [of "''q1''" "''C''" ?s2]
  have ne: "''q2'' \<noteq> ''q1''" by simp
  from h1 dom0 cnt0 have c1: "answeredCount ?s1 = 1" and d1: "fmdom (answers ?s1) = {|''q1''|}"
    by simp_all
  from h2 c1 d1 have c2: "answeredCount ?s2 = 2" and d2: "fmdom (answers ?s2) = {|''q2'', ''q1''|}"
    and l2: "fmlookup (answers ?s2) ''q2'' = Some ''A''"
    by simp_all
  from h3 c2 d2 l2 ne show ?thesis by simp
qed

section \<open>Navigation controller\<close>

lemma jumpTo_in_range:
  "0 \<le> i \<Longrightarrow> i < int (length qs) \<Longrightarrow> jumpTo qs i s = s\<lparr>currentQuestion := i\<rparr>"
  by (simp add: jumpTo_def jumpButtons_def)

lemma jumpTo_out_of_range:
  "\<not> (0 \<le> i \<and> i < int (length qs)) \<Longrightarrow> jumpTo qs i s = s"
  by (auto simp: jumpTo_def jumpButtons_def)

lemma navigate_keeps_range:
  assumes "0 \<le> currentQuestion s" and "currentQuestion s \<le> int (length qs) - 1"
  shows "0 \<le> currentQuestion (navigate qs a s) \<and>
         currentQuestion (navigate qs a s) \<le> int (length qs) - 1"
proof (cases a)
  case Next
  with assms show ?thesis by (simp add: handleNext_def)
next
  case Previous
  with assms show ?thesis by (auto simp: handlePrevious_def)
next
  case (Jump i)
  show ?thesis
  proof (cases "0 \<le> i \<and> i < int (length qs)")
    case True
    with Jump show ?thesis by (simp add: jumpTo_in_range)
  next
    case False
    with Jump assms show ?thesis by (simp add: jumpTo_out_of_range)
  qed
qed

lemma navigate_all_keeps_range:
  "0 \<le> currentQuestion s \<Longrightarrow> currentQuestion s \<le> int (length qs) - 1 \<Longrightarrow>
   0 \<le> currentQuestion (navigate_all qs as s) \<and>
   currentQuestion (navigate_all qs as s) \<le> int (length qs) - 1"
proof (induction as arbitrary: s)
  case Nil
  then show ?case by simp
next
  case (Cons a as)
  from navigate_keeps_range [OF Cons.prems, of a]
  have "0 \<le> currentQuestion (navigate qs a s)"
    and "currentQuestion (navigate qs a s) \<le> int (length qs) - 1"
    by blast+
  then show ?case using Cons.IH [of "navigate qs a s"] by simp
qed

text \<open>
  C4. \<open>next\<close> at the last index changes nothing and below it adds exactly one to the cursor;
  \<open>previous\<close> at index 0 changes nothing and above it subtracts exactly one; a jump to an
  index with no button (out of range) changes nothing, and a jump to an index in range sets
  the cursor to it; hence, on a non-empty question list, every sequence of next, previous and
  jump actions run from the freshly mounted component (cursor 0) leaves the cursor within
  0 and length - 1.
\<close>

theorem navigation_cursor_invariant:
  "(currentQuestion s = int (length qs) - 1 \<longrightarrow> handleNext qs s = s) \<and>
   (currentQuestion s < int (length qs) - 1 \<longrightarrow>
      handleNext qs s = s\<lparr>currentQuestion := currentQuestion s + 1\<rparr>) \<and>
   (currentQuestion s = 0 \<longrightarrow> handlePrevious s = s) \<and>
   (currentQuestion s > 0 \<longrightarrow>
      handlePrevious s = s\<lparr>currentQuestion := currentQuestion s - 1\<rparr>) \<and>
   (i < 0 \<or> int (length qs) \<le> i \<longrightarrow> jumpTo qs i s = s) \<and>
   (0 \<le> i \<and> i < int (length qs) \<longrightarrow> jumpTo qs i s = s\<lparr>currentQuestion := i\<rparr>) \<and>
   (qs \<noteq> [] \<longrightarrow>
      0 \<le> currentQuestion (navigate_all qs as QuizInterface_init) \<and>
      currentQuestion (navigate_all qs as QuizInterface_init) \<le> int (length qs) - 1)"
proof -
  have inv: "0 \<le> currentQuestion (navigate_all qs as QuizInterface_init) \<and>
      currentQuestion (navigate_all qs as QuizInterface_init) \<le> int (length qs) - 1"
    if "qs \<noteq> []"
  proof (rule navigate_all_keeps_range)
    show "0 \<le> currentQuestion QuizInterface_init"
      by (simp add: QuizInterface_init_def)
    from that have "0 < length qs" by simp
    then show "currentQuestion QuizInterface_init \<le> int (length qs) - 1"
      by (simp add: QuizInterface_init_def)
  qed
  have jump_out: "jumpTo qs i s = s" if "i < 0 \<or> int (length qs) \<le> i"
    using that by (intro jumpTo_out_of_range) auto
  show ?thesis
    using inv jump_out
    by (simp add: handleNext_def handlePrevious_def jumpTo_in_range)
qed

text \<open>
  Three questions: next, next, next (the third is at the last index), a jump to 7 and to -1
  (no such buttons), previous three times (the third is at index 0), a jump to 2.
\<close>

theorem navigation_cursor_invariant_witness:
  "handleNext [sample_question ''q1'', sample_question ''q2'', sample_question ''q3'']
      (QuizInterface_init\<lparr>currentQuestion := 2\<rparr>) = QuizInterface_init\<lparr>currentQuestion := 2\<rparr> \<and>
   handleNext [sample_question ''q1'', sample_question ''q2'', sample_question ''q3'']
      (QuizInterface_init\<lparr>currentQuestion := 1\<rparr>) = QuizInterface_init\<lparr>currentQuestion := 2\<rparr> \<and>
   handlePrevious (QuizInterface_init\<lparr>currentQuestion := 0\<rparr>) = QuizInterface_init\<lparr>currentQuestion := 0\<rparr> \<and>
   handlePrevious (QuizInterface_init\<lparr>currentQuestion := 2\<rparr>) = QuizInterface_init\<lparr>currentQuestion := 1\<rparr> \<and>
   jumpTo [sample_question ''q1'', sample_question ''q2'', sample_question ''q3''] 7
      (QuizInterface_init\<lparr>currentQuestion := 1\<rparr>) = QuizInterface_init\<lparr>currentQuestion := 1\<rparr> \<and>
   jumpTo [sample_question ''q1'', sample_question ''q2'', sample_question ''q3''] (- 1)
      (QuizInterface_init\<lparr>currentQuestion := 1\<rparr>) = QuizInterface_init\<lparr>currentQuestion := 1\<rparr> \<and>
   jumpTo [sample_question ''q1'', sample_question ''q2'', sample_question ''q3''] 2
      (QuizInterface_init\<lparr>currentQuestion := 0\<rparr>) = QuizInterface_init\<lparr>currentQuestion := 2\<rparr> \<and>
   0 \<le> currentQuestion
      (navigate_all [sample_question ''q1'', sample_question ''q2'', sample_question ''q3'']
         [Next, Next, Next, Jump 7, Jump (- 1), Previous, Previous, Previous, Jump 2]
         QuizInterface_init) \<and>
   currentQuestion
      (navigate_all [sample_question ''q1'', sample_question ''q2'', sample_question ''q3'']
         [Next, Next, Next, Jump 7, Jump (- 1), Previous, Previous, Previous, Jump 2]
         QuizInterface_init) \<le> 2"
proof -
  let ?qs = "[sample_question ''q1'', sample_question ''q2'', sample_question ''q3'']"
  let ?at = "\<lambda>n. QuizInterface_init\<lparr>currentQuestion := n\<rparr>"
  let ?as = "[Next, Next, Next, Jump 7, Jump (- 1), Previous, Previous, Previous, Jump 2]"
  note t = navigation_cursor_invariant
  from t [of "?at 2" ?qs 0 "[]"]
  have a: "handleNext ?qs (?at 2) = ?at 2" "handlePrevious (?at 2) = ?at 1"
    by simp_all
  from t [of "?at 1" ?qs 7 "[]"] t [of "?at 1" ?qs "- 1" "[]"]
  have b: "handleNext ?qs (?at 1) = ?at 2" "jumpTo ?qs 7 (?at 1) = ?at 1"
    "jumpTo ?qs (- 1) (?at 1) = ?at 1"
    by simp_all
  from t [of "?at 0" ?qs 2 ?as]
  have c: "handlePrevious (?at 0) = ?at 0" "jumpTo ?qs 2 (?at 0) = ?at 2"
    "0 \<le> currentQuestion (navigate_all ?qs ?as QuizInterface_init)"
    "currentQuestion (navigate_all ?qs ?as QuizInterface_init) \<le> 2"
    by simp_all
  from a b c show ?thesis by simp
qed

section \<open>Progress of the answer store\<close>

lemma answeredCount_keys:
  "answeredCount s = card {k. \<exists>v. fmlookup (answers s) k = Some v}"
proof -
  have "{k. \<exists>v. fmlookup (answers s) k = Some v} = dom (fmlookup (answers s))"
    by (auto simp: dom_def)
  then show ?thesis
    by (simp add: answeredCount_def fcard.rep_eq fmdom.rep_eq)
qed

lemma round_double_1: "round_double 1 = Num 1"
  by (simp add: round_double_def exponent_def pow2_def round_half_even_def Let_def compute_bitlen)

lemma round_double_100: "round_double 100 = Num 100"
  by (simp add: round_double_def exponent_def pow2_def round_half_even_def Let_def compute_bitlen)

lemma round_double_half: "round_double (1 / 2) = Num (1 / 2)"
  by (simp add: round_double_def exponent_def pow2_def round_half_even_def Let_def compute_bitlen)

lemma round_double_50: "round_double 50 = Num 50"
  by (simp add: round_double_def exponent_def pow2_def round_half_even_def Let_def compute_bitlen)

lemma round_double_7_25: "round_double (7 / 25) = Num (1261007895663739 / 2 ^ 52)"
  by (simp add: round_double_def exponent_def pow2_def round_half_even_def Let_def compute_bitlen)

lemma round_double_7_25_times_100:
  "round_double (1261007895663739 / 2 ^ 52 * 100) = Num (28 + 1 / 2 ^ 48)"
  by (simp add: round_double_def exponent_def pow2_def round_half_even_def Let_def compute_bitlen)

lemma times_100_half: "times_100 (round_double (1 / 2)) = Num 50"
  unfolding round_double_half times_100.simps using round_double_50 by simp

lemma times_100_7_25: "times_100 (round_double (7 / 25)) = Num (28 + 1 / 2 ^ 48)"
  unfolding round_double_7_25 times_100.simps by (rule round_double_7_25_times_100)

text \<open>
  C7, as stated, fails in two ways. With no questions the component, freshly mounted,
  computes \<open>0 / 0 * 100\<close>, which is NaN and not 0. And the value it computes is the
  percentage, not the fraction: with one of two questions answered it is 50, where the
  answered count divided by the number of questions is one half.
\<close>

theorem progress_zero_total_counterexample:
  "progress [] QuizInterface_init = NaN \<and>
   progress [] QuizInterface_init \<noteq> Num 0 \<and>
   answeredCount (handleAnswer ''q1'' ''A'' QuizInterface_init) = 1 \<and>
   progress [sample_question ''q1'', sample_question ''q2'']
     (handleAnswer ''q1'' ''A'' QuizInterface_init) = Num 50 \<and>
   progress [sample_question ''q1'', sample_question ''q2'']
     (handleAnswer ''q1'' ''A'' QuizInterface_init) \<noteq> Num (1 / 2)"
proof -
  have c: "answeredCount (handleAnswer ''q1'' ''A'' QuizInterface_init) = 1"
    "answeredCount QuizInterface_init = 0"
    by (simp_all add: answeredCount_def handleAnswer_def QuizInterface_init_def fcard_finsert_if)
  have "progress [] QuizInterface_init = NaN"
    using c(2) by (simp add: progress_def divide_lengths_def)
  moreover have "progress [sample_question ''q1'', sample_question ''q2'']
     (handleAnswer ''q1'' ''A'' QuizInterface_init) = Num 50"
    using c(1) by (simp add: progress_def divide_lengths_def round_double_half round_double_50)
  ultimately show ?thesis using c(1) by simp
qed

text \<open>
  C7, amended. The answered count is the number of distinct keys of the answer map. With at
  least one question, the progress value is the percentage: the answered count divided by
  the number of questions, rounded to a double, then multiplied by 100 and rounded again; it
  is 0 when nothing is answered and 100 when the answered count equals the number of
  questions. With no question and no answer the value is NaN; nothing is put in its place.
\<close>

theorem progress_of_answered_count:
  "answeredCount s = card {k. \<exists>v. fmlookup (answers s) k = Some v} \<and>
   (0 < length qs \<longrightarrow>
      progress qs s = times_100 (round_double (real (answeredCount s) / real (length qs)))) \<and>
   (0 < length qs \<and> answeredCount s = 0 \<longrightarrow> progress qs s = Num 0) \<and>
   (0 < length qs \<and> answeredCount s = length qs \<longrightarrow> progress qs s = Num 100) \<and>
   (length qs = 0 \<and> answeredCount s = 0 \<longrightarrow> progress qs s = NaN)"
proof -
  have zero: "round_double 0 = Num 0"
    by (simp add: round_double_def)
  have "progress qs s = Num 100" if "0 < length qs" "answeredCount s = length qs"
    using that by (simp add: progress_def divide_lengths_def round_double_1 round_double_100)
  moreover have "progress qs s = Num 0" if "0 < length qs" "answeredCount s = 0"
    using that by (simp add: progress_def divide_lengths_def zero)
  ultimately show ?thesis
    using answeredCount_keys [of s] by (simp add: progress_def divide_lengths_def)
qed

text \<open>
  One of two questions answered: 50. Seven of twenty-five answered: the quotient rounds to
  the double next to 0.28 and the product to the double next above 28, which prints as
  28.000000000000004. The single question of a quiz answered: 100. Nothing answered: 0.
\<close>

theorem progress_of_answered_count_witness:
  "progress [sample_question ''q1'', sample_question ''q2'']
     (handleAnswer ''q1'' ''A'' QuizInterface_init) = Num 50 \<and>
   progress (map sample_question
       [''01'', ''02'', ''03'', ''04'', ''05'', ''06'', ''07'', ''08'', ''09'', ''10'', ''11'', ''12'',
        ''13'', ''14'', ''15'', ''16'', ''17'', ''18'', ''19'', ''20'', ''21'', ''22'', ''23'', ''24'',
        ''25''])
     (handleAnswer ''07'' ''C'' (handleAnswer ''06'' ''B'' (handleAnswer ''05'' ''A''
       (handleAnswer ''04'' ''D'' (handleAnswer ''03'' ''C'' (handleAnswer ''02'' ''B''
       (handleAnswer ''01'' ''A'' QuizInterface_init))))))) = Num (28 + 1 / 2 ^ 48) \<and>
   progress [sample_question ''q1''] (handleAnswer ''q1'' ''A'' QuizInterface_init) = Num 100 \<and>
   progress [sample_question ''q1''] QuizInterface_init = Num 0 \<and>
   progress [] QuizInterface_init = NaN"
proof -
  let ?two = "[sample_question ''q1'', sample_question ''q2'']"
  let ?one = "handleAnswer ''q1'' ''A'' QuizInterface_init"
  let ?qs = "map sample_question
       [''01'', ''02'', ''03'', ''04'', ''05'', ''06'', ''07'', ''08'', ''09'', ''10'', ''11'', ''12'',
        ''13'', ''14'', ''15'', ''16'', ''17'', ''18'', ''19'', ''20'', ''21'', ''22'', ''23'', ''24'',
        ''25'']"
  let ?seven = "handleAnswer ''07'' ''C'' (handleAnswer ''06'' ''B'' (handleAnswer ''05'' ''A''
       (handleAnswer ''04'' ''D'' (handleAnswer ''03'' ''C'' (handleAnswer ''02'' ''B''
       (handleAnswer ''01'' ''A'' QuizInterface_init))))))"
  have c0: "answeredCount QuizInterface_init = 0"
    and c1: "answeredCount ?one = 1"
    and c7: "answeredCount ?seven = 7"
    by (simp_all add: answeredCount_def handleAnswer_def QuizInterface_init_def fcard_finsert_if)
  have "0 < length ?two"
    by simp
  with progress_of_answered_count [of ?one ?two]
  have "progress ?two ?one =
      times_100 (round_double (real (answeredCount ?one) / real (length ?two)))"
    by blast
  also from c1 have "\<dots> = times_100 (round_double (1 / 2))"
    by simp
  also have "\<dots> = Num 50"
    by (rule times_100_half)
  finally have a: "progress ?two ?one = Num 50" .
  have len: "0 < length ?qs"
    by simp
  from progress_of_answered_count [of ?seven ?qs] len
  have "progress ?qs ?seven =
      times_100 (round_double (real (answeredCount ?seven) / real (length ?qs)))"
    by blast
  also from c7 have "\<dots> = times_100 (round_double (7 / 25))"
    by simp
  also have "\<dots> = Num (28 + 1 / 2 ^ 48)"
    by (rule times_100_7_25)
  finally have b: "progress ?qs ?seven = Num (28 + 1 / 2 ^ 48)" .
  from c1 have "0 < length [sample_question ''q1''] \<and>
      answeredCount ?one = length [sample_question ''q1'']"
    by simp
  with progress_of_answered_count [of ?one "[sample_question ''q1'']"]
  have c: "progress [sample_question ''q1''] ?one = Num 100"
    by blast
  from c0 have "0 < length [sample_question ''q1''] \<and> answeredCount QuizInterface_init = 0"
    by simp
  with progress_of_answered_count [of QuizInterface_init "[sample_question ''q1'']"]
  have d: "progress [sample_question ''q1''] QuizInterface_init = Num 0"
    by blast
  from c0 have "length ([] :: question list) = 0 \<and> answeredCount QuizInterface_init = 0"
    by simp
  with progress_of_answered_count [of QuizInterface_init "[]"]
  have e: "progress [] QuizInterface_init = NaN"
    by blast
  from a b c d e show ?thesis by simp
qed

section \<open>Submission policy\<close>

lemma truthy_own_key:
  assumes "\<forall>k v. fmlookup m k = Some v \<longrightarrow> v \<noteq> []"
    and "k \<notin> set Object_prototype_members"
  shows "truthy (get_property m k) \<longleftrightarrow> k |\<in>| fmdom m"
proof (cases "fmlookup m k")
  case None
  with assms(2) show ?thesis by (simp add: get_property_def fmdom_notI)
next
  case (Some v)
  with assms(1) have "v \<noteq> []" by blast
  with Some show ?thesis by (simp add: get_property_def fmdomI)
qed

lemma unanswered_length:
  assumes ids: "distinct (map qid qs)"
    and own: "\<forall>q \<in> set qs. qid q \<notin> set Object_prototype_members"
    and nonempty: "\<forall>k v. fmlookup m k = Some v \<longrightarrow> v \<noteq> []"
  shows "length (filter (\<lambda>q. \<not> truthy (get_property m (qid q))) qs) = spec_unanswered_count qs m"
proof -
  let ?P = "\<lambda>q. truthy (get_property m (qid q))"
  have split: "length qs = length (filter ?P qs) + length (filter (\<lambda>q. \<not> ?P q) qs)"
    by (simp add: sum_length_filter_compl)
  from ids have "distinct (map qid (filter ?P qs))"
    by (rule distinct_map_filter)
  then have "length (filter ?P qs) = card (set (map qid (filter ?P qs)))"
    by (metis distinct_card length_map)
  also have "set (map qid (filter ?P qs)) = fset (fmdom m) \<inter> qid ` set qs"
    using truthy_own_key [OF nonempty] own by auto
  finally have "length (filter ?P qs) = card (fset (fmdom m) \<inter> qid ` set qs)" .
  with split show ?thesis by (simp add: spec_unanswered_count_def)
qed

text \<open>
  The quiz screen offers the four labels A to D, so every answer map it builds from the empty
  one holds non-empty answers only. For every question list and answer map the handler counts
  the questions under whose id the answer map reads falsy, and decides on that count.
\<close>

lemma handleAnswer_keeps_labels:
  assumes "\<forall>k v. fmlookup (answers s) k = Some v \<longrightarrow> v \<in> {''A'', ''B'', ''C'', ''D''}"
    and "opt \<in> {''A'', ''B'', ''C'', ''D''}"
  shows "\<forall>k v. fmlookup (answers (handleAnswer q opt s)) k = Some v \<longrightarrow>
           v \<in> {''A'', ''B'', ''C'', ''D''}"
  using assms by (auto simp: handleAnswer_def)

lemma handleSubmit_by_filter:
  "handleSubmit qs confirm s =
     (let n = length (filter (\<lambda>q. \<not> truthy (get_property (answers s) (qid q))) qs) in
      if n = 0 then (s, [OnSubmit (answers s)])
      else if confirm
      then (s, [WindowConfirm (''You have '' @ show_nat n @ '' unanswered question(s). Submit anyway?''),
                OnSubmit (answers s)])
      else (s, [WindowConfirm (''You have '' @ show_nat n @ '' unanswered question(s). Submit anyway?'')]))"
  by (simp add: handleSubmit_def Let_def)

text \<open>
  An answer that is the empty string reads falsy: a map holding one (the quiz screen never
  stores one) has its question among the keys and still counted as unanswered, so that the
  count of the specification is 0 where the handler asks for confirmation citing 1.
\<close>

lemma empty_answer_counts_as_unanswered:
  "spec_unanswered_count [sample_question ''q1'']
     (answers (handleAnswer ''q1'' [] QuizInterface_init)) = 0 \<and>
   handleSubmit [sample_question ''q1''] False (handleAnswer ''q1'' [] QuizInterface_init) =
   (handleAnswer ''q1'' [] QuizInterface_init,
    [WindowConfirm ''You have 1 unanswered question(s). Submit anyway?''])"
proof -
  have one: "show_nat 1 = ''1''"
    by code_simp
  have "handleSubmit [sample_question ''q1''] False (handleAnswer ''q1'' [] QuizInterface_init) =
   (handleAnswer ''q1'' [] QuizInterface_init,
    [WindowConfirm ''You have 1 unanswered question(s). Submit anyway?''])"
    using one
    by (simp add: handleSubmit_def get_property_def handleAnswer_def QuizInterface_init_def
        sample_question_def)
  moreover have "spec_unanswered_count [sample_question ''q1'']
     (answers (handleAnswer ''q1'' [] QuizInterface_init)) = 0"
    by (simp add: spec_unanswered_count_def handleAnswer_def QuizInterface_init_def
        sample_question_def)
  ultimately show ?thesis by simp
qed

text \<open>
  C3, as stated, fails: the count the handler decides on is not always the number of
  questions less the number of answer-map keys that are question ids. With two questions of
  the same id, answered once, that number is 1, yet submitting shows no dialog and calls
  \<open>onSubmit\<close>. With one question whose id is \<open>constructor\<close> and no answer, that number is 1, yet
  the read under the id finds the inherited member, and submitting shows no dialog and calls
  \<open>onSubmit\<close>.
\<close>

theorem submission_count_counterexample:
  "spec_unanswered_count [sample_question ''q1'', sample_question ''q1'']
     (answers (handleAnswer ''q1'' ''A'' QuizInterface_init)) = 1 \<and>
   handleSubmit [sample_question ''q1'', sample_question ''q1''] False
     (handleAnswer ''q1'' ''A'' QuizInterface_init) =
   (handleAnswer ''q1'' ''A'' QuizInterface_init,
    [OnSubmit (answers (handleAnswer ''q1'' ''A'' QuizInterface_init))]) \<and>
   spec_unanswered_count [sample_question ''constructor''] (answers QuizInterface_init) = 1 \<and>
   handleSubmit [sample_question ''constructor''] False QuizInterface_init =
   (QuizInterface_init, [OnSubmit (answers QuizInterface_init)])"
proof -
  have "handleSubmit [sample_question ''q1'', sample_question ''q1''] False
     (handleAnswer ''q1'' ''A'' QuizInterface_init) =
   (handleAnswer ''q1'' ''A'' QuizInterface_init,
    [OnSubmit (answers (handleAnswer ''q1'' ''A'' QuizInterface_init))])"
    by (simp add: handleSubmit_def get_property_def handleAnswer_def QuizInterface_init_def
        sample_question_def)
  moreover have "handleSubmit [sample_question ''constructor''] False QuizInterface_init =
   (QuizInterface_init, [OnSubmit (answers QuizInterface_init)])"
    by (simp add: handleSubmit_def get_property_def QuizInterface_init_def
        sample_question_def Object_prototype_members_def)
  moreover have "spec_unanswered_count [sample_question ''q1'', sample_question ''q1'']
     (answers (handleAnswer ''q1'' ''A'' QuizInterface_init)) = 1"
    "spec_unanswered_count [sample_question ''constructor''] (answers QuizInterface_init) = 1"
    by (simp_all add: spec_unanswered_count_def handleAnswer_def QuizInterface_init_def
        sample_question_def)
  ultimately show ?thesis by simp
qed

text \<open>
  C3, amended. Let the question ids be pairwise distinct, let none of them name a member of
  \<open>Object.prototype\<close>, and let the answer map hold no empty string (its values are option
  labels). If the unanswered count
  of the specification (number of questions less the number of answer-map keys that are
  question ids) is zero, submitting calls \<open>onSubmit\<close> with the answers and shows no dialog,
  whatever the user would have replied. If it is at least one, the confirm dialog citing
  exactly that count comes first: on a confirming reply \<open>onSubmit\<close> follows it; on a
  declining reply the component state (cursor and answer map) is returned unchanged and
  \<open>onSubmit\<close>, the only way the handler reaches the phase and the scoring call, is not
  called.
\<close>

theorem submission_policy:
  assumes ids: "distinct (map qid qs)"
    and own: "\<forall>q \<in> set qs. qid q \<notin> set Object_prototype_members"
    and nonempty: "\<forall>k v. fmlookup (answers s) k = Some v \<longrightarrow> v \<noteq> []"
  shows
    "(spec_unanswered_count qs (answers s) = 0 \<longrightarrow>
        handleSubmit qs confirm s = (s, [OnSubmit (answers s)])) \<and>
     (spec_unanswered_count qs (answers s) \<ge> 1 \<longrightarrow>
        handleSubmit qs True s =
          (s, [WindowConfirm (''You have '' @ show_nat (spec_unanswered_count qs (answers s)) @
                 '' unanswered question(s). Submit anyway?''),
               OnSubmit (answers s)]) \<and>
        handleSubmit qs False s =
          (s, [WindowConfirm (''You have '' @ show_nat (spec_unanswered_count qs (answers s)) @
                 '' unanswered question(s). Submit anyway?'')]))"
proof -
  have n: "spec_unanswered_count qs (answers s) =
      length (filter (\<lambda>q. \<not> truthy (get_property (answers s) (qid q))) qs)"
    using unanswered_length [OF ids own nonempty] by simp
  show ?thesis
    unfolding n by (simp add: handleSubmit_def Let_def)
qed

text \<open>
  Five questions with three answered: the dialog cites 2. Declining changes nothing and
  submits nothing; confirming submits the three answers. A quiz of one question, answered, is
  submitted with no dialog.
\<close>

theorem submission_policy_witness:
  "handleSubmit
     [sample_question ''q1'', sample_question ''q2'', sample_question ''q3'',
      sample_question ''q4'', sample_question ''q5'']
     False
     (handleAnswer ''q4'' ''D'' (handleAnswer ''q2'' ''A''
        (handleAnswer ''q1'' ''B'' QuizInterface_init))) =
   (handleAnswer ''q4'' ''D'' (handleAnswer ''q2'' ''A''
        (handleAnswer ''q1'' ''B'' QuizInterface_init)),
    [WindowConfirm ''You have 2 unanswered question(s). Submit anyway?'']) \<and>
   handleSubmit
     [sample_question ''q1'', sample_question ''q2'', sample_question ''q3'',
      sample_question ''q4'', sample_question ''q5'']
     True
     (handleAnswer ''q4'' ''D'' (handleAnswer ''q2'' ''A''
        (handleAnswer ''q1'' ''B'' QuizInterface_init))) =
   (handleAnswer ''q4'' ''D'' (handleAnswer ''q2'' ''A''
        (handleAnswer ''q1'' ''B'' QuizInterface_init)),
    [WindowConfirm ''You have 2 unanswered question(s). Submit anyway?'',
     OnSubmit (answers (handleAnswer ''q4'' ''D'' (handleAnswer ''q2'' ''A''
        (handleAnswer ''q1'' ''B'' QuizInterface_init))))]) \<and>
   handleSubmit [sample_question ''q1''] True (handleAnswer ''q1'' ''B'' QuizInterface_init) =
   (handleAnswer ''q1'' ''B'' QuizInterface_init,
    [OnSubmit (answers (handleAnswer ''q1'' ''B'' QuizInterface_init))])"
proof -
  let ?qs = "[sample_question ''q1'', sample_question ''q2'', sample_question ''q3'',
      sample_question ''q4'', sample_question ''q5'']"
  let ?s = "handleAnswer ''q4'' ''D'' (handleAnswer ''q2'' ''A''
        (handleAnswer ''q1'' ''B'' QuizInterface_init))"
  let ?t = "handleAnswer ''q1'' ''B'' QuizInterface_init"
  have ids: "distinct (map qid ?qs)" "distinct (map qid [sample_question ''q1''])"
    by (simp_all add: sample_question_def)
  have own: "\<forall>q \<in> set ?qs. qid q \<notin> set Object_prototype_members"
    "\<forall>q \<in> set [sample_question ''q1'']. qid q \<notin> set Object_prototype_members"
    by (simp_all add: sample_question_def Object_prototype_members_def)
  have nonempty: "\<forall>k v. fmlookup (answers ?s) k = Some v \<longrightarrow> v \<noteq> []"
    "\<forall>k v. fmlookup (answers ?t) k = Some v \<longrightarrow> v \<noteq> []"
    by (auto simp: handleAnswer_def QuizInterface_init_def split: if_splits)
  have "fset (fmdom (answers ?s)) \<inter> qid ` set ?qs = {''q1'', ''q2'', ''q4''}"
    by (auto simp: handleAnswer_def QuizInterface_init_def sample_question_def)
  then have two: "spec_unanswered_count ?qs (answers ?s) = 2"
    by (simp add: spec_unanswered_count_def)
  have "fset (fmdom (answers ?t)) \<inter> qid ` set [sample_question ''q1''] = {''q1''}"
    by (auto simp: handleAnswer_def QuizInterface_init_def sample_question_def)
  then have zero: "spec_unanswered_count [sample_question ''q1''] (answers ?t) = 0"
    by (simp add: spec_unanswered_count_def)
  have msg: "show_nat 2 = ''2''"
    by code_simp
  from submission_policy [OF ids(1) own(1) nonempty(1), of False] two msg
  have a: "handleSubmit ?qs False ?s =
      (?s, [WindowConfirm ''You have 2 unanswered question(s). Submit anyway?''])"
    "handleSubmit ?qs True ?s =
      (?s, [WindowConfirm ''You have 2 unanswered question(s). Submit anyway?'',
            OnSubmit (answers ?s)])"
    by simp_all
  from submission_policy [OF ids(2) own(2) nonempty(2), of True] zero
  have b: "handleSubmit [sample_question ''q1''] True ?t = (?t, [OnSubmit (answers ?t)])"
    by simp
  from a b show ?thesis by simp
qed

section \<open>Export trigger\<close>

text \<open>
  Answering, navigating and submitting leave the exporting flag of the quiz screen as it is:
  between the click and the settling of the request the flag stays set.
\<close>

lemma exporting_unchanged:
  "exporting (handleAnswer q opt s) = exporting s"
  "exporting (navigate qs a s) = exporting s"
  "exporting (fst (handleSubmit qs confirm s)) = exporting s"
proof -
  show "exporting (handleAnswer q opt s) = exporting s"
    by (simp add: handleAnswer_def)
  show "exporting (navigate qs a s) = exporting s"
  proof (cases a)
    case (Jump i)
    then show ?thesis
      by (cases "0 \<le> i \<and> i < int (length qs)")
        (simp_all add: jumpTo_in_range jumpTo_out_of_range)
  qed (simp_all add: handleNext_def handlePrevious_def)
  show "exporting (fst (handleSubmit qs confirm s)) = exporting s"
    by (simp add: handleSubmit_def Let_def)
qed

text \<open>
  C9. In the quiz screen and in the results screen alike: a click on an export button while the
  exporting flag is set does nothing (the button is disabled), and a click while it is clear
  sets the flag and issues one request; however the request settles, the flag is false
  afterwards; when it settles without a document (the request fails, the response is not ok,
  or the body cannot be read) an alert is shown, and when the document arrives it is saved.
\<close>

theorem export_trigger_lifecycle:
  "(exporting s \<longrightarrow> exportQuestions_click sid s = (s, [])) \<and>
   (\<not> exporting s \<longrightarrow>
      exportQuestions_click sid s = (s\<lparr>exporting := True\<rparr>, [FetchExport sid questions_only pdf])) \<and>
   exporting (fst (handleExportQuestions_resume sid fmt r s)) = False \<and>
   ((\<forall>b. r \<noteq> Ok b) \<longrightarrow>
      (\<exists>notice. snd (handleExportQuestions_resume sid fmt r s) = [WindowAlert notice])) \<and>
   snd (handleExportQuestions_resume sid fmt (Ok b) s) =
     [SaveAs (''questions_'' @ sid @ ''.'' @ file_format_name fmt) b] \<and>
   (isExporting d \<longrightarrow> exportResults_click sid fmt d = (d, [])) \<and>
   (\<not> isExporting d \<longrightarrow>
      exportResults_click sid fmt d =
        (d\<lparr>isExporting := True\<rparr>, [FetchExport sid results_with_answers fmt])) \<and>
   isExporting (fst (handleExport_resume ty fmt now r d)) = False \<and>
   ((\<forall>b. r \<noteq> Ok b) \<longrightarrow>
      WindowAlert ''Export failed. Please try again.''
        \<in> set (snd (handleExport_resume ty fmt now r d))) \<and>
   snd (handleExport_resume ty fmt now (Ok b) d) =
     [SaveAs (''quiz_'' @ export_type_name ty @ ''_'' @ show_nat now @ ''.'' @
              file_format_name fmt) b]"
  by (cases r)
    (simp_all add: exportQuestions_click_def handleExportQuestions_begin_def
      handleExportQuestions_resume_def exportResults_click_def handleExport_begin_def
      handleExport_resume_def)

text \<open>
  On the quiz screen: the first click starts the export, a second click during the export is
  suppressed, and a response that is not ok clears the flag and alerts. On the results screen:
  the same, with a request that fails.
\<close>

theorem export_trigger_lifecycle_witness:
  "exportQuestions_click ''s1'' QuizInterface_init =
     (QuizInterface_init\<lparr>exporting := True\<rparr>, [FetchExport ''s1'' questions_only pdf]) \<and>
   exportQuestions_click ''s1'' (QuizInterface_init\<lparr>exporting := True\<rparr>) =
     (QuizInterface_init\<lparr>exporting := True\<rparr>, []) \<and>
   exporting (fst (handleExportQuestions_resume ''s1'' pdf NotOk
     (QuizInterface_init\<lparr>exporting := True\<rparr>))) = False \<and>
   (\<exists>notice. snd (handleExportQuestions_resume ''s1'' pdf NotOk
     (QuizInterface_init\<lparr>exporting := True\<rparr>)) = [WindowAlert notice]) \<and>
   exportResults_click ''s1'' docx ResultsDisplay_init =
     (ResultsDisplay_init\<lparr>isExporting := True\<rparr>, [FetchExport ''s1'' results_with_answers docx]) \<and>
   exportResults_click ''s1'' docx (ResultsDisplay_init\<lparr>isExporting := True\<rparr>) =
     (ResultsDisplay_init\<lparr>isExporting := True\<rparr>, []) \<and>
   isExporting (fst (handleExport_resume results_with_answers docx 1700000000000 FetchRejected
     (ResultsDisplay_init\<lparr>isExporting := True\<rparr>))) = False \<and>
   WindowAlert ''Export failed. Please try again.''
     \<in> set (snd (handleExport_resume results_with_answers docx 1700000000000 FetchRejected
         (ResultsDisplay_init\<lparr>isExporting := True\<rparr>)))"
proof -
  let ?q = "QuizInterface_init\<lparr>exporting := True\<rparr>"
  let ?d = "ResultsDisplay_init\<lparr>isExporting := True\<rparr>"
  have off: "\<not> exporting QuizInterface_init" "\<not> isExporting ResultsDisplay_init"
    by (simp_all add: QuizInterface_init_def ResultsDisplay_init_def)
  have on: "exporting ?q" "isExporting ?d"
    by simp_all
  have fail: "\<forall>b. NotOk \<noteq> Ok b" "\<forall>b. FetchRejected \<noteq> Ok b"
    by simp_all
  from export_trigger_lifecycle
    [of QuizInterface_init "''s1''" pdf NotOk "''''" ResultsDisplay_init results_with_answers 0] off
  have a: "exportQuestions_click ''s1'' QuizInterface_init =
      (?q, [FetchExport ''s1'' questions_only pdf])"
    by simp
  from export_trigger_lifecycle
    [of QuizInterface_init "''s1''" docx NotOk "''''" ResultsDisplay_init results_with_answers 0] off
  have a': "exportResults_click ''s1'' docx ResultsDisplay_init =
      (?d, [FetchExport ''s1'' results_with_answers docx])"
    by simp
  from export_trigger_lifecycle
    [of ?q "''s1''" pdf NotOk "''''" ?d results_with_answers 0] on fail(1)
  have b: "exportQuestions_click ''s1'' ?q = (?q, [])"
    "exporting (fst (handleExportQuestions_resume ''s1'' pdf NotOk ?q)) = False"
    "\<exists>notice. snd (handleExportQuestions_resume ''s1'' pdf NotOk ?q) = [WindowAlert notice]"
    by simp_all
  from export_trigger_lifecycle
    [of ?q "''s1''" docx FetchRejected "''''" ?d results_with_answers 1700000000000] on fail(2)
  have c: "exportResults_click ''s1'' docx ?d = (?d, [])"
    "isExporting (fst (handleExport_resume results_with_answers docx 1700000000000 FetchRejected ?d)) = False"
    "WindowAlert ''Export failed. Please try again.''
       \<in> set (snd (handleExport_resume results_with_answers docx 1700000000000 FetchRejected ?d))"
    by simp_all
  from a a' b c show ?thesis by simp
qed


section \<open>Upload validation\<close>

lemma split_str_not_empty: "split_str c xs \<noteq> []"
  by (induction xs) (auto split: list.splits)

lemma split_str_no_separator: "c \<notin> set xs \<Longrightarrow> split_str c xs = [xs]"
  by (induction xs) auto

lemma length_split_str: "length (split_str c xs) = Suc (length (filter (\<lambda>x. x = c) xs))"
  by (induction xs) (auto split: list.splits)

lemma last_split_str_Cons:
  assumes "c \<in> set xs"
  shows "last (split_str c (x # xs)) = last (split_str c xs)"
proof (cases "x = c")
  case True
  then show ?thesis by (simp add: split_str_not_empty)
next
  case False
  from assms have "filter (\<lambda>x. x = c) xs \<noteq> []"
    by (simp add: filter_empty_conv)
  then have "2 \<le> length (split_str c xs)"
    by (cases "filter (\<lambda>x. x = c) xs") (simp_all add: length_split_str)
  then obtain seg seg' segs where "split_str c xs = seg # seg' # segs"
    by (cases "split_str c xs"; cases "tl (split_str c xs)") auto
  with False show ?thesis by simp
qed

lemma last_split_str_append:
  "c \<notin> set ys \<Longrightarrow> last (split_str c (xs @ c # ys)) = ys"
proof (induction xs)
  case Nil
  then show ?case by (simp add: split_str_no_separator)
next
  case (Cons x xs)
  have "last (split_str c (x # (xs @ c # ys))) = last (split_str c (xs @ c # ys))"
    by (rule last_split_str_Cons) simp
  with Cons show ?case by simp
qed

lemma fileExt_after_last_dot:
  "CHR ''.'' \<notin> set ext \<Longrightarrow> fileExt (base @ ''.'' @ ext) = ''.'' @ toLowerCase ext"
  using last_split_str_append [of "CHR ''.''" ext base] split_str_not_empty [of "CHR ''.''" "base @ ''.'' @ ext"]
  by (simp add: fileExt_def pop_def)

lemma fileExt_no_dot:
  "CHR ''.'' \<notin> set file_name \<Longrightarrow> fileExt file_name = ''.'' @ toLowerCase file_name"
  by (simp add: fileExt_def pop_def split_str_no_separator)

lemma lower_of_variant:
  assumes "a = b \<or> a = capital b" and "97 \<le> (of_char b :: nat)" and "(of_char b :: nat) \<le> 122"
  shows "toLowerCase_char a = b \<and> a \<noteq> CHR ''.''"
proof -
  from assms(1) show ?thesis
  proof
    assume "a = b"
    with assms(2,3) show ?thesis
      by (auto simp: toLowerCase_char_def)
  next
    assume a: "a = capital b"
    let ?n = "of_char b :: nat"
    from assms(2,3) have cap: "capital b = char_of (?n - 32)"
      by (simp add: capital_def)
    from assms(2,3) have n: "(of_char (char_of (?n - 32) :: char) :: nat) = ?n - 32"
      by simp
    from assms(2,3) have r: "65 \<le> ?n - 32" "?n - 32 \<le> 90"
      by arith+
    have "toLowerCase_char (char_of (?n - 32)) = char_of (?n - 32 + 32)"
      unfolding toLowerCase_char_def Let_def n using r by simp
    also from assms(2) have "?n - 32 + 32 = ?n" by simp
    finally have "toLowerCase_char a = b"
      using a cap by simp
    moreover have "a \<noteq> CHR ''.''"
    proof
      assume "a = CHR ''.''"
      with a cap have "(of_char (char_of (?n - 32) :: char) :: nat) = of_char (CHR ''.'')"
        by simp
      with n assms(2) show False by simp
    qed
    ultimately show ?thesis by simp
  qed
qed

lemma lower_of_case_variant:
  assumes "case_variant v w"
    and "\<forall>b \<in> set w. 97 \<le> (of_char b :: nat) \<and> (of_char b :: nat) \<le> 122"
  shows "toLowerCase v = w \<and> CHR ''.'' \<notin> set v"
  using assms unfolding case_variant_def toLowerCase_def
proof (induction v w rule: list_all2_induct)
  case Nil
  then show ?case by simp
next
  case (Cons a v b w)
  from Cons.hyps(1) Cons.prems have "toLowerCase_char a = b \<and> a \<noteq> CHR ''.''"
    by (intro lower_of_variant) auto
  with Cons show ?case by auto
qed

lemma fileExt_of_case_variant:
  assumes "w \<in> set allowedTypes" and "case_variant v w"
  shows "fileExt (base @ v) = w"
proof -
  from assms(1) obtain w' where w: "w = CHR ''.'' # w'"
    and low: "\<forall>b \<in> set w'. 97 \<le> (of_char b :: nat) \<and> (of_char b :: nat) \<le> 122"
    by (auto simp: allowedTypes_def)
  from assms(2) w obtain a v' where v: "v = a # v'"
    and a: "a = CHR ''.'' \<or> a = capital (CHR ''.'')" and rest: "case_variant v' w'"
    by (auto simp: case_variant_def list_all2_Cons2)
  from a have "a = CHR ''.''"
    by (simp add: capital_def)
  moreover from lower_of_case_variant [OF rest low]
  have "toLowerCase v' = w'" and "CHR ''.'' \<notin> set v'"
    by simp_all
  ultimately show ?thesis
    using fileExt_after_last_dot [of v' base] v w by simp
qed

text \<open>
  For a name with a dot the component decides on the lower-cased text after the last dot and
  then on the size; the scenario of the specification follows: a 2 MB \<open>.pdf\<close> is accepted, a
  12 MB \<open>.pdf\<close> is rejected with the size message, an \<open>.exe\<close> is rejected with the file-type
  message and leaves nothing to upload.
\<close>

lemma validateAndSetFile_dotted_name:
  assumes "CHR ''.'' \<notin> set ext"
  shows "validateAndSetFile \<lparr>name = base @ ''.'' @ ext, size_f = n\<rparr> s =
    (if toLowerCase ext \<notin> {''pdf'', ''docx'', ''txt''}
     then (s\<lparr>error_u := Some ''Please upload a PDF, DOCX, or TXT file''\<rparr>, [])
     else if n > 10 * 1024 * 1024
     then (s\<lparr>error_u := Some ''File size must be less than 10MB''\<rparr>, [])
     else (s\<lparr>error_u := None,
             selectedFile := Some \<lparr>name = base @ ''.'' @ ext, size_f = n\<rparr>\<rparr>, []))"
proof -
  from assms have "fileExt (base @ ''.'' @ ext) = ''.'' @ toLowerCase ext"
    by (rule fileExt_after_last_dot)
  then have "fileExt (name \<lparr>name = base @ ''.'' @ ext, size_f = n\<rparr>) = CHR ''.'' # toLowerCase ext"
    by simp
  then show ?thesis
    unfolding validateAndSetFile_def by (auto simp: allowedTypes_def)
qed

lemma upload_scenario:
  "validateAndSetFile \<lparr>name = ''notes.pdf'', size_f = 2 * 1024 * 1024\<rparr> FileUpload_init =
     (FileUpload_init\<lparr>error_u := None,
        selectedFile := Some \<lparr>name = ''notes.pdf'', size_f = 2 * 1024 * 1024\<rparr>\<rparr>, []) \<and>
   validateAndSetFile \<lparr>name = ''notes.pdf'', size_f = 12 * 1024 * 1024\<rparr> FileUpload_init =
     (FileUpload_init\<lparr>error_u := Some ''File size must be less than 10MB''\<rparr>, []) \<and>
   validateAndSetFile \<lparr>name = ''setup.exe'', size_f = 1024\<rparr> FileUpload_init =
     (FileUpload_init\<lparr>error_u := Some ''Please upload a PDF, DOCX, or TXT file''\<rparr>, []) \<and>
   snd (handleUpload_begin
     (fst (validateAndSetFile \<lparr>name = ''setup.exe'', size_f = 1024\<rparr> FileUpload_init))) = []"
proof -
  have low: "toLowerCase ''pdf'' = ''pdf''" "toLowerCase ''exe'' = ''exe''"
    by (simp_all add: toLowerCase_def toLowerCase_char_def)
  have none: "selectedFile FileUpload_init = None"
    by (simp add: FileUpload_init_def)
  from validateAndSetFile_dotted_name [of "''pdf''" "''notes''" "2 * 1024 * 1024" FileUpload_init] low
  have a: "validateAndSetFile \<lparr>name = ''notes.pdf'', size_f = 2 * 1024 * 1024\<rparr> FileUpload_init =
     (FileUpload_init\<lparr>error_u := None,
        selectedFile := Some \<lparr>name = ''notes.pdf'', size_f = 2 * 1024 * 1024\<rparr>\<rparr>, [])"
    by simp
  from validateAndSetFile_dotted_name [of "''pdf''" "''notes''" "12 * 1024 * 1024" FileUpload_init] low
  have b: "validateAndSetFile \<lparr>name = ''notes.pdf'', size_f = 12 * 1024 * 1024\<rparr> FileUpload_init =
     (FileUpload_init\<lparr>error_u := Some ''File size must be less than 10MB''\<rparr>, [])"
    by simp
  from validateAndSetFile_dotted_name [of "''exe''" "''setup''" 1024 FileUpload_init] low
  have c: "validateAndSetFile \<lparr>name = ''setup.exe'', size_f = 1024\<rparr> FileUpload_init =
     (FileUpload_init\<lparr>error_u := Some ''Please upload a PDF, DOCX, or TXT file''\<rparr>, [])"
    by simp
  from c none have "snd (handleUpload_begin
     (fst (validateAndSetFile \<lparr>name = ''setup.exe'', size_f = 1024\<rparr> FileUpload_init))) = []"
    by (simp add: handleUpload_begin_def)
  with a b c show ?thesis by simp
qed

text \<open>
  C5. Every file whose extension is not one of \<open>.pdf\<close>, \<open>.docx\<close>, \<open>.txt\<close> is to be rejected
  with a validation message, before any network call. The component does not do so for a
  file that has no extension and is named like one: the name \<open>pdf\<close> has no dot, the split
  returns the whole name, the computed extension is \<open>.pdf\<close>, and the file, dropped on a
  freshly mounted component, is accepted with no message, becomes the selected file, and is
  what the upload handler then sends.
\<close>

theorem upload_accepts_name_without_extension:
  "CHR ''.'' \<notin> set (name \<lparr>name = ''pdf'', size_f = 1024\<rparr>) \<and>
   fileExt (name \<lparr>name = ''pdf'', size_f = 1024\<rparr>) = ''.pdf'' \<and>
   validateAndSetFile \<lparr>name = ''pdf'', size_f = 1024\<rparr> FileUpload_init =
     (FileUpload_init\<lparr>error_u := None, selectedFile := Some \<lparr>name = ''pdf'', size_f = 1024\<rparr>\<rparr>,
      []) \<and>
   handleUpload_begin
     (fst (validateAndSetFile \<lparr>name = ''pdf'', size_f = 1024\<rparr> FileUpload_init)) =
     (FileUpload_init\<lparr>error_u := None, selectedFile := Some \<lparr>name = ''pdf'', size_f = 1024\<rparr>,
        isUploading := True, error_u := None\<rparr>,
      [FetchUpload \<lparr>name = ''pdf'', size_f = 1024\<rparr>])"
proof -
  have ext: "fileExt ''pdf'' = ''.pdf''"
    by (simp add: fileExt_no_dot toLowerCase_def toLowerCase_char_def)
  then have "validateAndSetFile \<lparr>name = ''pdf'', size_f = 1024\<rparr> FileUpload_init =
     (FileUpload_init\<lparr>error_u := None, selectedFile := Some \<lparr>name = ''pdf'', size_f = 1024\<rparr>\<rparr>,
      [])"
    by (simp add: validateAndSetFile_def allowedTypes_def)
  with ext show ?thesis
    by (simp add: handleUpload_begin_def)
qed

text \<open>
  C10. The extension compared with the allow-list is the text after the last dot of the file
  name, lower-cased; so a file whose name ends in an upper-case or mixed-case variant of an
  allowed extension passes the type check (it is then judged by its size alone). The type
  check comes first: a file that fails both checks gets the file-type message.
\<close>

theorem extension_check_ignores_case:
  "(CHR ''.'' \<notin> set ext \<longrightarrow> fileExt (base @ ''.'' @ ext) = ''.'' @ toLowerCase ext) \<and>
   (w \<in> set allowedTypes \<and> case_variant v w \<longrightarrow>
      fileExt (base @ v) \<in> set allowedTypes \<and>
      validateAndSetFile \<lparr>name = base @ v, size_f = n\<rparr> s =
        (if n > 10 * 1024 * 1024
         then (s\<lparr>error_u := Some ''File size must be less than 10MB''\<rparr>, [])
         else (s\<lparr>error_u := None, selectedFile := Some \<lparr>name = base @ v, size_f = n\<rparr>\<rparr>, []))) \<and>
   (fileExt (name f) \<notin> set allowedTypes \<and> size_f f > 10 * 1024 * 1024 \<longrightarrow>
      error_u (fst (validateAndSetFile f s)) = Some ''Please upload a PDF, DOCX, or TXT file'')"
proof -
  have ext: "fileExt (base @ ''.'' @ ext) = ''.'' @ toLowerCase ext" if "CHR ''.'' \<notin> set ext"
    using that by (rule fileExt_after_last_dot)
  have allowed: "fileExt (base @ v) \<in> set allowedTypes"
    if "w \<in> set allowedTypes" "case_variant v w"
    using fileExt_of_case_variant [OF that, of base] that(1) by simp
  have first: "error_u (fst (validateAndSetFile f s)) = Some ''Please upload a PDF, DOCX, or TXT file''"
    if "fileExt (name f) \<notin> set allowedTypes"
    using that by (simp add: validateAndSetFile_def)
  from allowed have passes: "validateAndSetFile \<lparr>name = base @ v, size_f = n\<rparr> s =
        (if n > 10 * 1024 * 1024
         then (s\<lparr>error_u := Some ''File size must be less than 10MB''\<rparr>, [])
         else (s\<lparr>error_u := None, selectedFile := Some \<lparr>name = base @ v, size_f = n\<rparr>\<rparr>, []))"
    if "w \<in> set allowedTypes" "case_variant v w"
    using that by (simp add: validateAndSetFile_def)
  from ext allowed first passes show ?thesis
    by blast
qed

text \<open>
  \<open>report.PDF\<close> and \<open>notes.Docx\<close> pass the type check; \<open>archive.tar.GZ\<close> has the
  extension \<open>.gz\<close>; a 12 MB \<open>setup.exe\<close> gets the file-type message, not the size message.
\<close>

theorem extension_check_ignores_case_witness:
  "fileExt ''archive.tar.GZ'' = ''.gz'' \<and>
   validateAndSetFile \<lparr>name = ''report.PDF'', size_f = 2048\<rparr> FileUpload_init =
     (FileUpload_init\<lparr>error_u := None,
        selectedFile := Some \<lparr>name = ''report.PDF'', size_f = 2048\<rparr>\<rparr>, []) \<and>
   fileExt ''notes.Docx'' \<in> set allowedTypes \<and>
   error_u (fst (validateAndSetFile \<lparr>name = ''setup.exe'', size_f = 12 * 1024 * 1024\<rparr>
     FileUpload_init)) = Some ''Please upload a PDF, DOCX, or TXT file''"
proof -
  note t = extension_check_ignores_case
  have v1: "''.pdf'' \<in> set allowedTypes \<and> case_variant ''.PDF'' ''.pdf''"
    and v2: "''.docx'' \<in> set allowedTypes \<and> case_variant ''.Docx'' ''.docx''"
    and exe_ext: "fileExt ''setup.exe'' \<notin> set allowedTypes"
    and gz: "CHR ''.'' \<notin> set ''GZ''" "toLowerCase ''GZ'' = ''gz''"
    by code_simp+
  from t [of "''GZ''" "''archive.tar''" "''.pdf''" "''.PDF''" 2048 FileUpload_init
      "\<lparr>name = ''setup.exe'', size_f = 12 * 1024 * 1024\<rparr>"] gz
  have a0: "fileExt ''archive.tar.GZ'' = ''.gz''"
    by simp
  from t [of "''GZ''" "''report''" "''.pdf''" "''.PDF''" 2048 FileUpload_init
      "\<lparr>name = ''setup.exe'', size_f = 12 * 1024 * 1024\<rparr>"] v1 exe_ext
  have a:
    "validateAndSetFile \<lparr>name = ''report.PDF'', size_f = 2048\<rparr> FileUpload_init =
     (FileUpload_init\<lparr>error_u := None,
        selectedFile := Some \<lparr>name = ''report.PDF'', size_f = 2048\<rparr>\<rparr>, [])"
    "error_u (fst (validateAndSetFile \<lparr>name = ''setup.exe'', size_f = 12 * 1024 * 1024\<rparr>
       FileUpload_init)) = Some ''Please upload a PDF, DOCX, or TXT file''"
    by simp_all
  from t [of "''GZ''" "''notes''" "''.docx''" "''.Docx''" 2048 FileUpload_init
      "\<lparr>name = ''setup.exe'', size_f = 12 * 1024 * 1024\<rparr>"] v2
  have b: "fileExt ''notes.Docx'' \<in> set allowedTypes"
    by simp
  from a0 a b show ?thesis by simp
qed


section \<open>Restart and late responses\<close>

text \<open>
  C6. Restart, from any state of the application and with or without a quiz on the screen,
  leaves the phase at Upload, the file id, file name and session id empty, the question list
  empty, the result and the error absent; the component that held the answer map and the
  cursor is unmounted, so no answer is kept, and a quiz mounted afterwards starts from the
  empty answer map and cursor 0.
\<close>

theorem restart_postcondition:
  "state (fst (restart (a, child))) = Upload \<and>
   fileId (fst (restart (a, child))) = [] \<and>
   fileName (fst (restart (a, child))) = [] \<and>
   sessionId (fst (restart (a, child))) = [] \<and>
   questions (fst (restart (a, child))) = [] \<and>
   results (fst (restart (a, child))) = None \<and>
   error (fst (restart (a, child))) = None \<and>
   snd (restart (a, child)) = None \<and>
   (render_QuizInterface a' (snd (restart (a, child))) = Some c \<longrightarrow>
      answers c = fmempty \<and> currentQuestion c = 0)"
  by (auto simp: restart_def handleRestart_def render_QuizInterface_def QuizInterface_init_def
      split: if_splits)

text \<open>
  A quiz on two questions with the first answered and the cursor on the second is restarted;
  then a file is uploaded and questions are generated again.
\<close>

theorem restart_postcondition_witness:
  "restart
     (handleQuestionsGenerated [sample_question ''q1'', sample_question ''q2''] ''s1''
        (handleFileUploaded ''f1'' ''notes.pdf'' App_init),
      Some (handleNext [sample_question ''q1'', sample_question ''q2'']
              (handleAnswer ''q1'' ''B'' QuizInterface_init))) =
   (App_init, None) \<and>
   answers (the (render_QuizInterface
     (handleQuestionsGenerated [sample_question ''q3''] ''s2''
        (handleFileUploaded ''f2'' ''other.txt'' App_init)) None)) = fmempty \<and>
   currentQuestion (the (render_QuizInterface
     (handleQuestionsGenerated [sample_question ''q3''] ''s2''
        (handleFileUploaded ''f2'' ''other.txt'' App_init)) None)) = 0"
proof -
  let ?a = "handleQuestionsGenerated [sample_question ''q1'', sample_question ''q2''] ''s1''
        (handleFileUploaded ''f1'' ''notes.pdf'' App_init)"
  let ?child = "Some (handleNext [sample_question ''q1'', sample_question ''q2'']
              (handleAnswer ''q1'' ''B'' QuizInterface_init))"
  let ?a' = "handleQuestionsGenerated [sample_question ''q3''] ''s2''
        (handleFileUploaded ''f2'' ''other.txt'' App_init)"
  have status: "backendStatus (fst (restart (?a, ?child))) = None"
    by (simp add: restart_def Let_def handleRestart_def handleQuestionsGenerated_def
        handleFileUploaded_def App_init_def)
  have mounted: "render_QuizInterface ?a' None = Some (the (render_QuizInterface ?a' None))"
    by (simp add: render_QuizInterface_def handleQuestionsGenerated_def)
  note t = restart_postcondition [of ?a ?child ?a' "the (render_QuizInterface ?a' None)"]
  from t status have "fst (restart (?a, ?child)) = App_init"
    by (simp add: App_init_def)
  moreover from t have "snd (restart (?a, ?child)) = None"
    by simp
  ultimately have r: "restart (?a, ?child) = (App_init, None)"
    by (simp add: prod_eq_iff)
  from t mounted have "answers (the (render_QuizInterface ?a' None)) = fmempty"
    and "currentQuestion (the (render_QuizInterface ?a' None)) = 0"
    by simp_all
  with r show ?thesis by simp
qed

text \<open>
  C1, as stated, fails. A quiz of session \<open>s1\<close> is submitted, the user restarts while the
  request is outstanding (the active session id is then empty), and the response arrives: its
  result is stored and the results phase is entered. A failure response arriving after the
  restart puts its message on the screen.
\<close>

theorem stale_response_counterexample:
  "handleQuizSubmit_begin (fmupd ''q1'' ''B'' fmempty)
     (handleQuestionsGenerated [sample_question ''q1''] ''s1''
        (handleFileUploaded ''f1'' ''notes.pdf'' App_init)) =
   SubmitQuiz ''s1'' (fmupd ''q1'' ''B'' fmempty) \<and>
   sessionId (handleRestart (handleQuestionsGenerated [sample_question ''q1''] ''s1''
        (handleFileUploaded ''f1'' ''notes.pdf'' App_init))) = [] \<and>
   handleQuizSubmit_resume (SubmitQuiz ''s1'' (fmupd ''q1'' ''B'' fmempty))
     (Resolved \<lparr>success = True, data = Some (sample_result ''s1''), error_r = None\<rparr>)
     (handleRestart (handleQuestionsGenerated [sample_question ''q1''] ''s1''
        (handleFileUploaded ''f1'' ''notes.pdf'' App_init))) =
   App_init\<lparr>results := Some (sample_result ''s1''), state := Results\<rparr> \<and>
   handleQuizSubmit_resume (SubmitQuiz ''s1'' (fmupd ''q1'' ''B'' fmempty))
     (Resolved \<lparr>success = False, data = None, error_r = Some ''Session not found''\<rparr>)
     (handleRestart (handleQuestionsGenerated [sample_question ''q1''] ''s1''
        (handleFileUploaded ''f1'' ''notes.pdf'' App_init))) =
   App_init\<lparr>error := Some ''Session not found''\<rparr>"
  by (simp add: handleQuizSubmit_begin_def handleQuizSubmit_resume_def handleRestart_def
      handleQuestionsGenerated_def handleFileUploaded_def App_init_def or_else_def)

text \<open>
  C1, amended. There is no stale-response guard: the response to a quiz submission is applied
  to the state the application has when the response arrives, whatever session the request
  was sent for and whatever the active session is then. A successful response with a result
  stores the result, enters the results phase and clears the error; any other response, or a
  thrown error, sets the error message; nothing else changes.
\<close>

theorem quiz_response_applied_unguarded:
  "handleQuizSubmit_resume (SubmitQuiz sid submitted)
      (Resolved \<lparr>success = True, data = Some r, error_r = e\<rparr>) a =
     a\<lparr>results := Some r, state := Results, error := None\<rparr> \<and>
   (\<not> (ok \<and> d \<noteq> None) \<longrightarrow>
      handleQuizSubmit_resume (SubmitQuiz sid submitted)
        (Resolved \<lparr>success = ok, data = d, error_r = e\<rparr>) a =
      a\<lparr>error := Some (or_else e ''Failed to submit quiz'')\<rparr>) \<and>
   handleQuizSubmit_resume (SubmitQuiz sid submitted) (Threw (ErrorObject msg)) a =
     a\<lparr>error := Some msg\<rparr> \<and>
   handleQuizSubmit_resume (SubmitQuiz sid submitted) (Threw OtherValue) a =
     a\<lparr>error := Some ''Failed to submit quiz''\<rparr>"
  by (auto simp: handleQuizSubmit_resume_def)

text \<open>
  A response for session \<open>s1\<close> arriving while session \<open>s2\<close> is being taken, and a failure
  response without a message arriving on the initial state.
\<close>

theorem quiz_response_applied_unguarded_witness:
  "handleQuizSubmit_resume (SubmitQuiz ''s1'' fmempty)
      (Resolved \<lparr>success = True, data = Some (sample_result ''s1''), error_r = None\<rparr>)
      (handleQuestionsGenerated [sample_question ''q3''] ''s2'' App_init) =
     (handleQuestionsGenerated [sample_question ''q3''] ''s2'' App_init)
       \<lparr>results := Some (sample_result ''s1''), state := Results, error := None\<rparr> \<and>
   handleQuizSubmit_resume (SubmitQuiz ''s1'' fmempty)
      (Resolved \<lparr>success = False, data = None, error_r = None\<rparr>) App_init =
     App_init\<lparr>error := Some ''Failed to submit quiz''\<rparr>"
proof -
  have fallback: "or_else None ''Failed to submit quiz'' = ''Failed to submit quiz''"
    by (simp add: or_else_def)
  from quiz_response_applied_unguarded
    [of "''s1''" fmempty "sample_result ''s1''" None
      "handleQuestionsGenerated [sample_question ''q3''] ''s2'' App_init" False None "''''"]
  have a: "handleQuizSubmit_resume (SubmitQuiz ''s1'' fmempty)
      (Resolved \<lparr>success = True, data = Some (sample_result ''s1''), error_r = None\<rparr>)
      (handleQuestionsGenerated [sample_question ''q3''] ''s2'' App_init) =
     (handleQuestionsGenerated [sample_question ''q3''] ''s2'' App_init)
       \<lparr>results := Some (sample_result ''s1''), state := Results, error := None\<rparr>"
    by simp
  from quiz_response_applied_unguarded
    [of "''s1''" fmempty "sample_result ''s1''" None App_init False None "''''"] fallback
  have b: "handleQuizSubmit_resume (SubmitQuiz ''s1'' fmempty)
      (Resolved \<lparr>success = False, data = None, error_r = None\<rparr>) App_init =
     App_init\<lparr>error := Some ''Failed to submit quiz''\<rparr>"
    by simp
  from a b show ?thesis by simp
qed


end
